theory Spec2Isabelle
  imports Complex_Main
begin

section \<open>The DataGrid component of clarity-react\<close>

text \<open>
  A shallow embedding of the state handling of \<^verbatim>\<open>src/datagrid/DataGrid.tsx\<close>.
  JavaScript numbers that count pages, items and indices are integers here; a value that
  may be \<^verbatim>\<open>undefined\<close> is an \<open>option\<close>; a callback supplied by the caller is a handle
  (a natural number), and every call the grid makes to such a callback is appended to the
  log \<open>invoked\<close>. A promise is modelled by two functions: the part of the handler that runs
  at once, and the function passed to \<^verbatim>\<open>then\<close>, which takes the value the promise resolved
  with. Fields that only carry markup (\<^verbatim>\<open>className\<close>, \<^verbatim>\<open>style\<close>, \<^verbatim>\<open>displayName\<close>, \<^verbatim>\<open>filter\<close>)
  are read by the render methods alone and are left out.
\<close>

subsection \<open>Data model\<close>

datatype SortOrder = DESC | ASC | NONE

datatype error = TypeError

text \<open>
  A \<^verbatim>\<open>DataGridSort\<close> object is mutated in place by \<^verbatim>\<open>handleSort\<close> and assigned by reference
  by \<^verbatim>\<open>setSortingState\<close>, so the sort objects live in a store (\<open>sortObjs\<close> below) and a column
  holds the address of its sort object.
\<close>

record DataGridSort =
  defaultSortOrder :: SortOrder
  isSorted :: "bool option"
  sortFunction :: nat

record DataGridColumn =
  columnName :: string
  columnID :: "nat option"
  sort_col :: "nat option"
  isVisible :: "bool option"
  width :: "int option"

record DataGridCell =
  cellData :: string
  columnName_cell :: string

record expandableRowDetails =
  isLoading_row :: "bool option"
  onRowExpand :: "nat option"
  expandableContent :: "string option"
  isExpanded :: "bool option"
  hideRowExpandIcon :: "bool option"

record DataGridRow =
  rowData :: "DataGridCell list"
  rowID :: "nat option"
  isSelected :: "bool option"
  expandableRowData :: "expandableRowDetails option"
  disableRowSelection :: "bool option"

record DataGridPaginationProps =
  currentPage_prop :: "int option"
  pageSize_prop :: "int option"
  pageSizes_prop :: "int list option"
  totalItems_prop :: "int option"
  compactFooter_prop :: "bool option"
  getPageData :: "nat option"

record DataGridPaginationState =
  currentPage :: int
  pageSize :: int
  totalItems :: int
  firstItem :: int
  lastItem :: int
  totalPages :: int
  pageSizes :: "int list option"
  compactFooter :: "bool option"

text \<open>
  Of the props, \<open>updateDataGridColumns\<close> stands for
  \<^verbatim>\<open>footer.hideShowColumns.updateDataGridColumns\<close>.
\<close>

record DataGridProps =
  columns :: "DataGridColumn list"
  rows :: "DataGridRow list option"
  itemText_prop :: "string option"
  pagination_prop :: "DataGridPaginationProps option"
  isLoading_prop :: "bool option"
  updateDataGridColumns :: "nat option"

record DataGridState =
  selectAll :: bool
  allColumns :: "DataGridColumn list"
  allRows :: "DataGridRow list"
  itemText :: string
  pagination :: "DataGridPaginationState option"
  isLoading :: bool

text \<open>The calls the grid makes to the callbacks it was given, with their arguments.\<close>

datatype call =
    GetPageData nat int int
  | OnRowExpand nat DataGridRow
  | SortFunction nat "DataGridRow list" SortOrder string
  | UpdateDataGridColumns nat "DataGridColumn list"

text \<open>
  The component instance: its props, its React state, the text of the page-index input box
  (\<^verbatim>\<open>pageIndexRef.current.value\<close>; \<open>None\<close> while the box is not rendered), the store of
  sort objects and the log of callback invocations.
\<close>

record DataGrid =
  props :: DataGridProps
  state :: DataGridState
  pageIndexRef :: "string option"
  sortObjs :: "nat \<Rightarrow> DataGridSort"
  invoked :: "call list"

subsection \<open>Numbers and text\<close>

text \<open>\<^verbatim>\<open>Number.prototype.toString\<close> on an integer: decimal digits, a minus sign when negative.\<close>

fun natToString :: "nat \<Rightarrow> string" where
  "natToString n =
     (if n < 10 then [char_of (48 + n)]
      else natToString (n div 10) @ [char_of (48 + n mod 10)])"

declare natToString.simps [simp del]

definition toString :: "int \<Rightarrow> string" where
  "toString i = (if i < 0 then CHR ''-'' # natToString (nat (- i)) else natToString (nat i))"

text \<open>
  \<^verbatim>\<open>parseInt(text)\<close> with no radix, on ASCII text: leading white space is skipped, a sign
  is read, a \<^verbatim>\<open>0x\<close> prefix selects base 16, and the longest run of digits is converted.
  \<open>None\<close> is \<^verbatim>\<open>NaN\<close>.
\<close>

definition isWhiteSpace :: "char \<Rightarrow> bool" where
  "isWhiteSpace c = ((of_char c :: nat) \<in> {9, 10, 11, 12, 13, 32})"

definition digitValue :: "char \<Rightarrow> nat option" where
  "digitValue c =
     (let k = (of_char c :: nat) in
      if 48 \<le> k \<and> k \<le> 57 then Some (k - 48)
      else if 97 \<le> k \<and> k \<le> 102 then Some (k - 87)
      else if 65 \<le> k \<and> k \<le> 70 then Some (k - 55)
      else None)"

definition isDigitIn :: "nat \<Rightarrow> char \<Rightarrow> bool" where
  "isDigitIn radix c = (case digitValue c of None \<Rightarrow> False | Some d \<Rightarrow> d < radix)"

definition parseInt :: "string \<Rightarrow> int option" where
  "parseInt text =
     (let s1 = dropWhile isWhiteSpace text;
          negative = (s1 \<noteq> [] \<and> hd s1 = CHR ''-'');
          s2 = (if s1 \<noteq> [] \<and> (hd s1 = CHR ''-'' \<or> hd s1 = CHR ''+'') then tl s1 else s1);
          hex = (take 2 s2 = ''0x'' \<or> take 2 s2 = ''0X'');
          radix = (if hex then 16 else 10);
          s3 = (if hex then drop 2 s2 else s2);
          ds = takeWhile (isDigitIn radix) s3;
          n = foldl (\<lambda>acc c. acc * radix + the (digitValue c)) 0 ds
      in if ds = [] then None
         else Some (if negative then - int n else int n))"

subsection \<open>Loading flag\<close>

definition showLoader :: "DataGrid \<Rightarrow> DataGrid" where
  "showLoader g = g\<lparr>state := (state g)\<lparr>isLoading := True\<rparr>\<rparr>"

definition hideLoader :: "DataGrid \<Rightarrow> DataGrid" where
  "hideLoader g = g\<lparr>state := (state g)\<lparr>isLoading := False\<rparr>\<rparr>"

subsection \<open>Rows and selection\<close>

text \<open>\<^verbatim>\<open>updateRowIDs\<close>: every row gets its index as \<^verbatim>\<open>rowID\<close>.\<close>

definition updateRowIDs :: "DataGridRow list \<Rightarrow> DataGridRow list" where
  "updateRowIDs rs = map (\<lambda>(index, row). row\<lparr>rowID := Some index\<rparr>) (enumerate 0 rs)"

definition getSelectionEnabledRows :: "DataGridRow list \<Rightarrow> DataGridRow list" where
  "getSelectionEnabledRows rs = filter (\<lambda>row. disableRowSelection row \<noteq> Some True) rs"

text \<open>
  Modelled from the spec: \<^verbatim>\<open>allTrueOnKey\<close> is imported from \<^verbatim>\<open>../utils\<close>, which is not
  among the sources. With the key \<^verbatim>\<open>isSelected\<close> it holds when every row of the list has
  \<^verbatim>\<open>isSelected\<close> equal to true.
\<close>

definition allTrueOnKey :: "DataGridRow list \<Rightarrow> bool" where
  "allTrueOnKey rs = list_all (\<lambda>row. isSelected row = Some True) rs"

definition isAllRowsSelected :: "DataGridRow list \<Rightarrow> bool" where
  "isAllRowsSelected rs =
     (let enabled = getSelectionEnabledRows rs
      in if length enabled \<noteq> 0 then allTrueOnKey enabled else False)"

subsection \<open>Pagination\<close>

text \<open>
  \<^verbatim>\<open>Math.floor((totalItems + pageSize - 1) / pageSize)\<close>. Integer division in HOL rounds
  down as \<^verbatim>\<open>Math.floor\<close> does; for \<open>pageSize = 0\<close> the source yields no finite number, so
  every statement below about a page count is made for a page size other than 0.
\<close>

definition getTotalPages :: "int \<Rightarrow> int \<Rightarrow> int" where
  "getTotalPages totalItems' pageSize' = (totalItems' + pageSize' - 1) div pageSize'"

definition getFirstItemIndex :: "int \<Rightarrow> int \<Rightarrow> int" where
  "getFirstItemIndex page pageSize' = page * pageSize' - (pageSize' - 1)"

definition getLastItemIndex :: "int \<Rightarrow> int \<Rightarrow> int \<Rightarrow> int" where
  "getLastItemIndex pageSize' totalItems' firstItem' = min (firstItem' + pageSize' - 1) totalItems'"

text \<open>The \<^verbatim>\<open>pagination\<close> entry of the state initialiser of the class.\<close>

definition initialPagination :: "DataGridProps \<Rightarrow> DataGridPaginationState option" where
  "initialPagination ps =
     (case pagination_prop ps of
        None \<Rightarrow> None
      | Some pp \<Rightarrow>
          Some \<lparr>currentPage = (case currentPage_prop pp of Some c \<Rightarrow> c | None \<Rightarrow> 1),
                pageSize = (case pageSize_prop pp of Some n \<Rightarrow> n | None \<Rightarrow> 10),
                totalItems = (case totalItems_prop pp of Some t \<Rightarrow> t | None \<Rightarrow> 0),
                firstItem = 0,
                lastItem = 0,
                totalPages = 1,
                pageSizes = pageSizes_prop pp,
                compactFooter = Some (case compactFooter_prop pp of Some b \<Rightarrow> b | None \<Rightarrow> False)\<rparr>)"

text \<open>
  \<^verbatim>\<open>setInitalStateForPagination\<close> writes the derived fields into the pagination object of
  the state.
\<close>

definition setInitalStateForPagination :: "DataGridPaginationState option \<Rightarrow> DataGridPaginationState option" where
  "setInitalStateForPagination pg =
     (case pg of
        None \<Rightarrow> None
      | Some p \<Rightarrow>
          let firstItem' = getFirstItemIndex (currentPage p) (pageSize p);
              lastItem' = getLastItemIndex (pageSize p) (totalItems p) firstItem'
          in Some (p\<lparr>totalPages := getTotalPages (totalItems p) (pageSize p),
                      firstItem := firstItem',
                      lastItem := lastItem',
                      compactFooter := Some (case compactFooter p of Some b \<Rightarrow> b | None \<Rightarrow> False)\<rparr>))"

text \<open>
  The pagination state once the constructor has run (the constructor calls
  \<^verbatim>\<open>setInitalStateForPagination\<close> when the \<^verbatim>\<open>pagination\<close> prop is given; without the prop the
  state holds no pagination object).
\<close>

definition constructorPagination :: "DataGridProps \<Rightarrow> DataGridPaginationState option" where
  "constructorPagination ps = setInitalStateForPagination (initialPagination ps)"

text \<open>\<^verbatim>\<open>updateRows(rows, totalItems)\<close>, called when the caller supplies new rows.\<close>

definition updateRows :: "DataGridRow list \<Rightarrow> int option \<Rightarrow> DataGrid \<Rightarrow> DataGrid" where
  "updateRows rs totalItems' g =
     (let updatedRows = updateRowIDs rs;
          g1 = (case (pagination (state g), totalItems') of
                  (Some p, Some ti) \<Rightarrow>
                    let totalPages' = getTotalPages ti (pageSize p);
                        currentPage' = (if currentPage p > totalPages' then 1 else currentPage p);
                        firstItem' = getFirstItemIndex currentPage' (pageSize p);
                        lastItem' = getLastItemIndex (pageSize p) ti firstItem'
                    in g\<lparr>state := (state g)\<lparr>pagination :=
                           Some (p\<lparr>totalPages := totalPages',
                                   firstItem := firstItem',
                                   lastItem := lastItem',
                                   currentPage := currentPage',
                                   totalItems := ti,
                                   compactFooter :=
                                     Some (case compactFooter p of Some b \<Rightarrow> b | None \<Rightarrow> False)\<rparr>)\<rparr>,
                         pageIndexRef := map_option (\<lambda>_. toString currentPage') (pageIndexRef g)\<rparr>
                | _ \<Rightarrow> g)
      in g1\<lparr>state := (state g1)\<lparr>allRows := updatedRows,
                                 selectAll := isAllRowsSelected updatedRows\<rparr>\<rparr>)"

text \<open>
  \<^verbatim>\<open>getPage(pageIndex, pageSize)\<close> up to the call of \<^verbatim>\<open>getPageData\<close>. The pagination object
  of the state is written before the promise resolves.
\<close>

definition getPage :: "int \<Rightarrow> int \<Rightarrow> DataGrid \<Rightarrow> DataGrid" where
  "getPage pageIndex pageSize' g =
     (case (pagination (state g), pagination_prop (props g)) of
        (Some p, Some pp) \<Rightarrow>
          let g1 = showLoader g;
              totalItems' = totalItems p;
              totalPages' = (if pageSize p \<noteq> pageSize' then getTotalPages totalItems' pageSize'
                             else totalPages p);
              pageIndex1 = (if pageIndex > totalPages' \<and> totalPages' \<noteq> 0 then totalPages'
                            else pageIndex);
              pageIndex2 = (if pageIndex1 < 1 then 1 else pageIndex1);
              g2 = g1\<lparr>pageIndexRef := map_option (\<lambda>_. toString pageIndex2) (pageIndexRef g1)\<rparr>
          in (case getPageData pp of
                None \<Rightarrow> g2
              | Some h \<Rightarrow>
                  let firstItem' = getFirstItemIndex pageIndex2 pageSize';
                      lastItem' = getLastItemIndex pageSize' totalItems' firstItem'
                  in g2\<lparr>state := (state g2)\<lparr>pagination :=
                          Some (p\<lparr>pageSize := pageSize',
                                  currentPage := pageIndex2,
                                  firstItem := firstItem',
                                  lastItem := lastItem',
                                  totalPages := getTotalPages totalItems' pageSize'\<rparr>)\<rparr>,
                        invoked := invoked g2 @ [GetPageData h pageIndex2 pageSize']\<rparr>)
      | _ \<Rightarrow> g)"

text \<open>The function \<^verbatim>\<open>getPage\<close> passes to \<^verbatim>\<open>then\<close>: it receives the rows of the page.\<close>

definition getPage_then :: "DataGridRow list \<Rightarrow> DataGrid \<Rightarrow> DataGrid" where
  "getPage_then data g =
     (let rows' = updateRowIDs data
      in hideLoader (g\<lparr>state := (state g)\<lparr>allRows := rows',
                                          selectAll := isAllRowsSelected rows'\<rparr>\<rparr>))"

text \<open>
  A number that may be \<^verbatim>\<open>NaN\<close> is an \<open>int option\<close>. \<^verbatim>\<open>if (x)\<close> on such a number fails for
  \<^verbatim>\<open>NaN\<close> and for 0.
\<close>

definition truthy :: "int option \<Rightarrow> bool" where
  "truthy x = (case x of None \<Rightarrow> False | Some k \<Rightarrow> k \<noteq> 0)"

definition isNaN :: "int option \<Rightarrow> bool" where
  "isNaN x = (x = None)"

text \<open>
  \<^verbatim>\<open>handlePageChange\<close>: the handler of the page-index input box. Reading the fields of an
  absent pagination object throws. Without an input box \<^verbatim>\<open>pageIndex\<close> is \<^verbatim>\<open>null\<close>, and the test
  \<^verbatim>\<open>if (pageIndex)\<close> fails.
\<close>

definition handlePageChange :: "DataGrid \<Rightarrow> error + DataGrid" where
  "handlePageChange g =
     (case pagination (state g) of
        None \<Rightarrow> Inl TypeError
      | Some p \<Rightarrow>
          (case pageIndexRef g of
             None \<Rightarrow> Inr g
           | Some text \<Rightarrow>
               let pageIndex = parseInt text
               in if truthy pageIndex then
                    (if isNaN pageIndex
                     then Inr (g\<lparr>pageIndexRef := Some (toString (currentPage p))\<rparr>)
                     else Inr (getPage (the pageIndex) (pageSize p) g))
                  else Inr g))"

text \<open>
  \<^verbatim>\<open>buildDataGridFooter\<close> renders the pagination controls (the page buttons, the page-index
  input box and the page-size select, the only callers of \<^verbatim>\<open>getPage\<close>) when this holds.
\<close>

definition renderPaginationFooter :: "DataGridState \<Rightarrow> bool" where
  "renderPaginationFooter s =
     (case pagination s of
        None \<Rightarrow> False
      | Some p \<Rightarrow> totalItems p \<noteq> 0 \<and> pageSize p \<noteq> 0 \<and> totalItems p \<ge> pageSize p)"

subsection \<open>Columns\<close>

definition updateColumnIDs :: "DataGridColumn list \<Rightarrow> DataGridColumn list" where
  "updateColumnIDs cs = map (\<lambda>(index, column). column\<lparr>columnID := Some index\<rparr>) (enumerate 0 cs)"

definition setColumnVisibility :: "DataGridColumn list \<Rightarrow> DataGridColumn list" where
  "setColumnVisibility cs =
     map (\<lambda>column. column\<lparr>isVisible := Some (case isVisible column of Some b \<Rightarrow> b | None \<Rightarrow> True)\<rparr>) cs"

text \<open>
  \<^verbatim>\<open>setSortingState\<close>: a column that declares a sort object gets the sort object of the
  first column of the state with the same name (\<^verbatim>\<open>col && col.sort\<close>, so none when there is no
  such column or it has none). The first argument is \<^verbatim>\<open>this.state.allColumns\<close>. The source
  assigns in place; the only columns of the state it reads are the first of each name, and
  such a column, when it is also among the incoming ones, is assigned its own sort object,
  so the result is the one computed here.
\<close>

definition setSortingState :: "DataGridColumn list \<Rightarrow> DataGridColumn list \<Rightarrow> DataGridColumn list" where
  "setSortingState allColumns' cs =
     map (\<lambda>column.
            case sort_col column of
              None \<Rightarrow> column
            | Some _ \<Rightarrow>
                (case find (\<lambda>c. columnName c = columnName column) allColumns' of
                   None \<Rightarrow> column\<lparr>sort_col := None\<rparr>
                 | Some col \<Rightarrow> column\<lparr>sort_col := sort_col col\<rparr>)) cs"

definition updateColumns :: "DataGridColumn list \<Rightarrow> DataGrid \<Rightarrow> DataGrid" where
  "updateColumns cols g =
     (let columnsWithVisibility = setColumnVisibility cols;
          columnsWithSort = setSortingState (allColumns (state g)) columnsWithVisibility;
          updatedCols = updateColumnIDs columnsWithSort;
          g1 = g\<lparr>state := (state g)\<lparr>allColumns := updatedCols\<rparr>\<rparr>
      in case updateDataGridColumns (props g) of
           None \<Rightarrow> g1
         | Some h \<Rightarrow> g1\<lparr>invoked := invoked g1 @ [UpdateDataGridColumns h updatedCols]\<rparr>)"

subsection \<open>Expandable rows\<close>

text \<open>
  \<^verbatim>\<open>toggleExpand(rowID)\<close> up to the call of \<^verbatim>\<open>onRowExpand\<close>. Reading \<^verbatim>\<open>expandableRowData\<close> of
  a row that does not exist throws.
\<close>

definition toggleExpand :: "nat \<Rightarrow> DataGrid \<Rightarrow> error + DataGrid" where
  "toggleExpand rowID' g =
     (let allRows' = allRows (state g)
      in if rowID' \<ge> length allRows' then Inl TypeError
         else
           (case expandableRowData (allRows' ! rowID') of
              None \<Rightarrow> Inr g
            | Some e \<Rightarrow>
                let e1 = e\<lparr>isExpanded := Some (isExpanded e \<noteq> Some True)\<rparr>
                in if onRowExpand e1 \<noteq> None \<and> isExpanded e1 = Some True then
                     let e2 = e1\<lparr>isLoading_row := Some True\<rparr>;
                         rows' = allRows'[rowID' := (allRows' ! rowID')\<lparr>expandableRowData := Some e2\<rparr>]
                     in Inr (g\<lparr>state := (state g)\<lparr>allRows := rows'\<rparr>,
                              invoked := invoked g @ [OnRowExpand (the (onRowExpand e1)) (rows' ! rowID')]\<rparr>)
                   else
                     Inr (g\<lparr>state := (state g)\<lparr>allRows :=
                            allRows'[rowID' := (allRows' ! rowID')\<lparr>expandableRowData := Some e1\<rparr>]\<rparr>\<rparr>)))"

text \<open>
  The function \<^verbatim>\<open>toggleExpand\<close> passes to \<^verbatim>\<open>then\<close>: it receives the content and writes it
  into the \<^verbatim>\<open>expandableRowData\<close> object of its closure. It is applied to a grid whose rows
  are those \<^verbatim>\<open>toggleExpand\<close> left (they may have been toggled or selected since), so that the
  row at \<^verbatim>\<open>rowID\<close> holds that object. A grid whose rows were replaced meanwhile is outside
  the model: the source writes into the object of its closure and puts the array of its
  closure back into the state, whereas this function writes into the row now at \<^verbatim>\<open>rowID\<close> and
  reports an error when there is no such row or the row has no such object.
\<close>

definition toggleExpand_then :: "nat \<Rightarrow> string \<Rightarrow> DataGrid \<Rightarrow> error + DataGrid" where
  "toggleExpand_then rowID' content g =
     (let allRows' = allRows (state g)
      in if rowID' \<ge> length allRows' then Inl TypeError
         else
           (case expandableRowData (allRows' ! rowID') of
              None \<Rightarrow> Inl TypeError
            | Some e \<Rightarrow>
                let e' = e\<lparr>expandableContent := Some content, isLoading_row := Some False\<rparr>
                in Inr (g\<lparr>state := (state g)\<lparr>allRows :=
                          allRows'[rowID' := (allRows' ! rowID')\<lparr>expandableRowData := Some e'\<rparr>]\<rparr>\<rparr>)))"

subsection \<open>Sorting\<close>

definition nextSortOrder :: "SortOrder \<Rightarrow> SortOrder" where
  "nextSortOrder defaultSortOrder' =
     (if defaultSortOrder' = NONE \<or> defaultSortOrder' = DESC then ASC else DESC)"

text \<open>
  \<^verbatim>\<open>handleSort\<close> up to the call of the sort function: the flag \<^verbatim>\<open>isSorted\<close> of the sort object
  of every column is cleared.
\<close>

definition handleSort :: "string \<Rightarrow> nat option \<Rightarrow> nat \<Rightarrow> SortOrder \<Rightarrow> DataGrid \<Rightarrow> DataGrid" where
  "handleSort columnName' columnID' sortFunction' defaultSortOrder' g =
     (let g1 = showLoader g
      in case columnID' of
           None \<Rightarrow> g1
         | Some _ \<Rightarrow>
             g1\<lparr>sortObjs :=
                  fold (\<lambda>col objs. case sort_col col of
                                      None \<Rightarrow> objs
                                    | Some a \<Rightarrow> objs(a := (objs a)\<lparr>isSorted := Some False\<rparr>))
                       (allColumns (state g1)) (sortObjs g1),
                invoked := invoked g1 @
                  [SortFunction sortFunction' (allRows (state g1))
                     (nextSortOrder defaultSortOrder') columnName']\<rparr>)"

text \<open>
  The function \<^verbatim>\<open>handleSort\<close> passes to \<^verbatim>\<open>then\<close>, with the \<^verbatim>\<open>columnID\<close> and the
  \<^verbatim>\<open>nextSortOrder\<close> of its closure: it receives the sorted rows. Writing to the sort object of
  a column that does not exist, or that has none, throws. The columns are those of the state:
  the function is applied to a grid whose columns were not replaced since \<^verbatim>\<open>handleSort\<close> ran.
\<close>

definition handleSort_then :: "nat \<Rightarrow> SortOrder \<Rightarrow> DataGridRow list \<Rightarrow> DataGrid \<Rightarrow> error + DataGrid" where
  "handleSort_then columnID' nextSortOrder' data g =
     (let rows' = updateRowIDs data;
          allColumns' = allColumns (state g)
      in if columnID' \<ge> length allColumns' then Inl TypeError
         else
           (case sort_col (allColumns' ! columnID') of
              None \<Rightarrow> Inl TypeError
            | Some a \<Rightarrow>
                Inr (hideLoader
                  (g\<lparr>sortObjs := (sortObjs g)
                         (a := (sortObjs g a)\<lparr>defaultSortOrder := nextSortOrder', isSorted := Some True\<rparr>),
                     state := (state g)\<lparr>allRows := rows'\<rparr>\<rparr>))))"

text \<open>
  One sort activation that completes: the click on the header button of the column at
  \<open>index\<close> (\<^verbatim>\<open>buildDataGridColumn\<close> passes the column's name, \<^verbatim>\<open>columnID\<close>, sort function and
  current \<^verbatim>\<open>defaultSortOrder\<close> to \<^verbatim>\<open>handleSort\<close>), followed by the sort function resolving with
  \<open>data\<close>, no other handler running in between. A column without a sort object has no
  button; without a \<^verbatim>\<open>columnID\<close> the sort function is never called.
\<close>

definition sortActivation :: "nat \<Rightarrow> DataGridRow list \<Rightarrow> DataGrid \<Rightarrow> error + DataGrid" where
  "sortActivation index data g =
     (let column = allColumns (state g) ! index
      in case sort_col column of
           None \<Rightarrow> Inr g
         | Some a \<Rightarrow>
             let srt = sortObjs g a;
                 g1 = handleSort (columnName column) (columnID column) (sortFunction srt)
                        (defaultSortOrder srt) g
             in (case columnID column of
                   None \<Rightarrow> Inr g1
                 | Some i \<Rightarrow> handleSort_then i (nextSortOrder (defaultSortOrder srt)) data g1))"

text \<open>The flag the header reads: \<^verbatim>\<open>sort.isSorted\<close> of the column's sort object.\<close>

definition isSortedColumn :: "DataGrid \<Rightarrow> DataGridColumn \<Rightarrow> bool" where
  "isSortedColumn g column =
     (case sort_col column of None \<Rightarrow> False | Some a \<Rightarrow> isSorted (sortObjs g a) = Some True)"

definition currentOrder :: "DataGrid \<Rightarrow> DataGridColumn \<Rightarrow> SortOrder option" where
  "currentOrder g column = map_option (\<lambda>a. defaultSortOrder (sortObjs g a)) (sort_col column)"

text \<open>The addresses of the sort objects of a column list, in column order.\<close>

definition sortRefs :: "DataGridColumn list \<Rightarrow> nat list" where
  "sortRefs cs = concat (map (\<lambda>c. case sort_col c of None \<Rightarrow> [] | Some a \<Rightarrow> [a]) cs)"

subsection \<open>The derived pagination fields\<close>

text \<open>
  The derived fields as the specification states them, without the minimum of 1 for
  \<open>totalPages\<close>.
\<close>

definition derivedFields :: "DataGridPaginationState \<Rightarrow> bool" where
  "derivedFields p \<longleftrightarrow>
     firstItem p = (currentPage p - 1) * pageSize p + 1 \<and>
     lastItem p = min (firstItem p + pageSize p - 1) (totalItems p) \<and>
     totalPages p = \<lceil>real_of_int (totalItems p) / real_of_int (pageSize p)\<rceil>"

text \<open>The page count of the specification: the ceiling, with a minimum of 1.\<close>

definition specTotalPages :: "int \<Rightarrow> int \<Rightarrow> int" where
  "specTotalPages totalItems' pageSize' =
     max 1 \<lceil>real_of_int totalItems' / real_of_int pageSize'\<rceil>"

text \<open>The derived fields as the three helper functions of the source compute them.\<close>

definition derivedFromCode :: "DataGridPaginationState \<Rightarrow> bool" where
  "derivedFromCode p \<longleftrightarrow>
     firstItem p = getFirstItemIndex (currentPage p) (pageSize p) \<and>
     lastItem p = getLastItemIndex (pageSize p) (totalItems p) (firstItem p) \<and>
     totalPages p = getTotalPages (totalItems p) (pageSize p)"

text \<open>
  The grids reached from a constructed one by pagination updates: new rows from the caller
  (with or without a new total), page requests, pages delivered, and new props.
\<close>

inductive afterPaginationUpdates :: "DataGrid \<Rightarrow> bool" where
  constructed: "pagination (state g) = constructorPagination (props g) \<Longrightarrow> afterPaginationUpdates g"
| rows_replaced: "afterPaginationUpdates g \<Longrightarrow> afterPaginationUpdates (updateRows rs ti g)"
| page_requested: "afterPaginationUpdates g \<Longrightarrow> afterPaginationUpdates (getPage i n g)"
| page_loaded: "afterPaginationUpdates g \<Longrightarrow> afterPaginationUpdates (getPage_then data g)"
| props_replaced: "afterPaginationUpdates g \<Longrightarrow> afterPaginationUpdates (g\<lparr>props := ps\<rparr>)"

subsection \<open>Example grids\<close>

text \<open>
  A pagination prop that gives the total and, when it has one, the page loader; and the grid
  the constructor leaves for it when there are no rows and no columns, the input box showing
  page 1.
\<close>

definition paginationProp :: "int \<Rightarrow> nat option \<Rightarrow> DataGridPaginationProps" where
  "paginationProp total' loader =
     \<lparr>currentPage_prop = None, pageSize_prop = None, pageSizes_prop = None,
      totalItems_prop = Some total', compactFooter_prop = None, getPageData = loader\<rparr>"

definition emptyGrid :: "DataGridPaginationProps option \<Rightarrow> DataGrid" where
  "emptyGrid pp =
     (let ps = \<lparr>columns = [], rows = None, itemText_prop = None, pagination_prop = pp,
                isLoading_prop = None, updateDataGridColumns = None\<rparr>
      in \<lparr>props = ps,
          state = \<lparr>selectAll = False, allColumns = [], allRows = [], itemText = ''items'',
                   pagination = constructorPagination ps, isLoading = False\<rparr>,
          pageIndexRef = Some ''1'',
          sortObjs = (\<lambda>_. \<lparr>defaultSortOrder = NONE, isSorted = None, sortFunction = 0\<rparr>),
          invoked = []\<rparr>)"

text \<open>A column and a row as a caller declares them, and grids that hold them.\<close>

definition column :: "string \<Rightarrow> nat option \<Rightarrow> DataGridColumn" where
  "column name srt =
     \<lparr>columnName = name, columnID = None, sort_col = srt, isVisible = None, width = None\<rparr>"

definition expandableRow :: "nat option \<Rightarrow> DataGridRow" where
  "expandableRow loader =
     \<lparr>rowData = [], rowID = None, isSelected = None,
      expandableRowData =
        Some \<lparr>isLoading_row = None, onRowExpand = loader, expandableContent = None,
              isExpanded = None, hideRowExpandIcon = None\<rparr>,
      disableRowSelection = None\<rparr>"

definition plainRow :: "bool option \<Rightarrow> bool option \<Rightarrow> DataGridRow" where
  "plainRow selected disabled =
     \<lparr>rowData = [], rowID = None, isSelected = selected, expandableRowData = None,
      disableRowSelection = disabled\<rparr>"

definition gridWithRows :: "DataGridRow list \<Rightarrow> DataGrid" where
  "gridWithRows rs = (emptyGrid None)\<lparr>state := (state (emptyGrid None))\<lparr>allRows := updateRowIDs rs\<rparr>\<rparr>"

definition gridWithColumns :: "DataGridColumn list \<Rightarrow> (nat \<Rightarrow> DataGridSort) \<Rightarrow> DataGrid" where
  "gridWithColumns cs objs =
     (emptyGrid None)\<lparr>state := (state (emptyGrid None))
                         \<lparr>allColumns := updateColumnIDs (setColumnVisibility cs)\<rparr>,
                       sortObjs := objs\<rparr>"

text \<open>A sort object with the given order and flag.\<close>

definition sortObject :: "SortOrder \<Rightarrow> bool option \<Rightarrow> DataGridSort" where
  "sortObject order' sorted' = \<lparr>defaultSortOrder = order', isSorted = sorted', sortFunction = 0\<rparr>"

text \<open>Running a handler on the result of another: an error ends the run.\<close>

definition andThen :: "error + DataGrid \<Rightarrow> (DataGrid \<Rightarrow> error + DataGrid) \<Rightarrow> error + DataGrid" where
  "andThen r f = (case r of Inl e \<Rightarrow> Inl e | Inr g \<Rightarrow> f g)"

text \<open>
  What the examples observe of a run: how many times a content loader was called, and the
  names of the columns whose header shows the sort flag.
\<close>

definition loaderCalls :: "error + DataGrid \<Rightarrow> nat" where
  "loaderCalls r =
     (case r of
        Inl _ \<Rightarrow> 0
      | Inr g \<Rightarrow> length (filter (\<lambda>c. case c of OnRowExpand _ _ \<Rightarrow> True | _ \<Rightarrow> False) (invoked g)))"

definition sortedColumns :: "error + DataGrid \<Rightarrow> string list" where
  "sortedColumns r =
     (case r of
        Inl _ \<Rightarrow> []
      | Inr g \<Rightarrow> map columnName (filter (isSortedColumn g) (allColumns (state g))))"

section \<open>Pagination: the derived fields\<close>

text \<open>
  For a positive page size the page count of the source is the ceiling of
  \<open>totalItems / pageSize\<close>, and it is at least 1 exactly when there is an item.
\<close>

lemma getTotalPages_ceiling:
  assumes "0 < n"
  shows "getTotalPages t n = \<lceil>real_of_int t / real_of_int n\<rceil>"
proof -
  define z where "z = (t + n - 1) div n"
  have eq: "t + n - 1 = z * n + (t + n - 1) mod n"
    unfolding z_def by simp
  have m0: "0 \<le> (t + n - 1) mod n" and m1: "(t + n - 1) mod n < n"
    using assms by simp_all
  have lo: "z * n \<le> t + n - 1" using eq m0 by linarith
  have hi: "t + n - 1 < z * n + n" using eq m1 by linarith
  have a: "(z - 1) * n < t" using lo by (simp add: algebra_simps)
  have b: "t \<le> z * n" using hi by simp
  have "real_of_int (z - 1) * real_of_int n < real_of_int t"
    using a by (metis of_int_less_iff of_int_mult)
  then have "real_of_int (z - 1) < real_of_int t / real_of_int n"
    using assms by (simp add: pos_less_divide_eq)
  then have c: "real_of_int z - 1 < real_of_int t / real_of_int n"
    by simp
  have "real_of_int t \<le> real_of_int z * real_of_int n"
    using b by (metis of_int_le_iff of_int_mult)
  then have d: "real_of_int t / real_of_int n \<le> real_of_int z"
    using assms by (simp add: pos_divide_le_eq)
  from c d have "\<lceil>real_of_int t / real_of_int n\<rceil> = z"
    by (simp add: ceiling_eq_iff)
  then show ?thesis by (simp add: getTotalPages_def z_def)
qed

lemma getTotalPages_pos_iff:
  assumes "0 < n"
  shows "1 \<le> getTotalPages t n \<longleftrightarrow> 0 < t"
proof -
  have "0 < (t + n - 1) div n \<longleftrightarrow> n \<le> t + n - 1"
    using assms by (rule pos_imp_zdiv_pos_iff)
  then show ?thesis by (auto simp: getTotalPages_def)
qed

lemma constructor_derived:
  "constructorPagination ps = Some p \<Longrightarrow> derivedFromCode p"
  by (auto simp: constructorPagination_def setInitalStateForPagination_def initialPagination_def
      derivedFromCode_def Let_def split: option.splits)

lemma updateRows_derived:
  assumes "\<forall>q. pagination (state g) = Some q \<longrightarrow> derivedFromCode q"
    and "pagination (state (updateRows rs ti g)) = Some p"
  shows "derivedFromCode p"
  using assms
  by (auto simp: updateRows_def derivedFromCode_def Let_def split: option.splits)

lemma getPage_derived:
  assumes "\<forall>q. pagination (state g) = Some q \<longrightarrow> derivedFromCode q"
    and "pagination (state (getPage i n g)) = Some p"
  shows "derivedFromCode p"
  using assms
  by (auto simp: getPage_def showLoader_def derivedFromCode_def Let_def split: option.splits)

lemma getPage_then_pagination:
  "pagination (state (getPage_then data g)) = pagination (state g)"
  by (simp add: getPage_then_def hideLoader_def Let_def)

lemma afterPaginationUpdates_derived:
  "afterPaginationUpdates g \<Longrightarrow> pagination (state g) = Some p \<Longrightarrow> derivedFromCode p"
proof (induction arbitrary: p rule: afterPaginationUpdates.induct)
  case (constructed g)
  then show ?case by (simp add: constructor_derived)
next
  case (rows_replaced g rs ti)
  then show ?case using updateRows_derived by blast
next
  case (page_requested g i n)
  then show ?case using getPage_derived by blast
next
  case (page_loaded g data)
  then show ?case by (simp add: getPage_then_pagination)
next
  case (props_replaced g ps)
  then show ?case by simp
qed

lemma derivedFromCode_fields:
  assumes "derivedFromCode p" and "0 < pageSize p"
  shows "derivedFields p"
  using assms getTotalPages_ceiling [of "pageSize p" "totalItems p"]
  by (simp add: derivedFromCode_def derivedFields_def getFirstItemIndex_def
      getLastItemIndex_def algebra_simps)

text \<open>
  Claim C1, as the code has it. After the constructor and after every pagination update (new
  rows with or without a new total, a page request, a delivered page), a pagination state
  with a positive page size has \<open>firstItem = (currentPage - 1) * pageSize + 1\<close>,
  \<open>lastItem = min (firstItem + pageSize - 1) totalItems\<close> and
  \<open>totalPages = \<lceil>totalItems / pageSize\<rceil>\<close>. No minimum is applied to \<open>totalPages\<close>: it is at
  least 1 exactly when \<open>totalItems\<close> is positive.
\<close>

theorem pagination_derived_fields:
  assumes "afterPaginationUpdates g"
    and "pagination (state g) = Some p"
    and "0 < pageSize p"
  shows "derivedFields p \<and> (1 \<le> totalPages p \<longleftrightarrow> 0 < totalItems p)"
proof -
  have c: "derivedFromCode p"
    using assms(1,2) by (rule afterPaginationUpdates_derived)
  then have "totalPages p = getTotalPages (totalItems p) (pageSize p)"
    by (simp add: derivedFromCode_def)
  then have "1 \<le> totalPages p \<longleftrightarrow> 0 < totalItems p"
    using assms(3) by (simp add: getTotalPages_pos_iff)
  with c assms(3) show ?thesis
    by (simp add: derivedFromCode_fields)
qed

lemma emptyGrid_pagination:
  "pagination (state (emptyGrid pp)) = constructorPagination (props (emptyGrid pp))"
  by (simp add: emptyGrid_def Let_def)

lemma page3:
  "pagination (state (getPage 3 10 (emptyGrid (Some (paginationProp 25 (Some 7)))))) =
     Some \<lparr>currentPage = 3, pageSize = 10, totalItems = 25, firstItem = 21, lastItem = 25,
           totalPages = 3, pageSizes = None, compactFooter = Some False\<rparr>"
  by (simp add: getPage_def emptyGrid_def paginationProp_def constructorPagination_def
      setInitalStateForPagination_def initialPagination_def showLoader_def Let_def
      getTotalPages_def getFirstItemIndex_def getLastItemIndex_def)

text \<open>
  The hypotheses of C1 hold for the grid with 25 items after page 3 of size 10 was requested:
  items 21 to 25 of 3 pages.
\<close>

theorem pagination_derived_fields_witness:
  "afterPaginationUpdates (getPage 3 10 (emptyGrid (Some (paginationProp 25 (Some 7))))) \<and>
   pagination (state (getPage 3 10 (emptyGrid (Some (paginationProp 25 (Some 7)))))) =
     Some \<lparr>currentPage = 3, pageSize = 10, totalItems = 25, firstItem = 21, lastItem = 25,
           totalPages = 3, pageSizes = None, compactFooter = Some False\<rparr> \<and>
   derivedFields \<lparr>currentPage = 3, pageSize = 10, totalItems = 25, firstItem = 21,
     lastItem = 25, totalPages = 3, pageSizes = None, compactFooter = Some False\<rparr> \<and>
   (1 \<le> (3::int) \<longleftrightarrow> 0 < (25::int))"
proof -
  let ?g = "getPage 3 10 (emptyGrid (Some (paginationProp 25 (Some 7))))"
  let ?p = "\<lparr>currentPage = 3, pageSize = 10, totalItems = 25, firstItem = 21,
     lastItem = 25, totalPages = 3, pageSizes = None, compactFooter = Some False\<rparr>"
  have r: "afterPaginationUpdates ?g"
    by (rule page_requested, rule constructed, rule emptyGrid_pagination)
  have p: "pagination (state ?g) = Some ?p"
    by (rule page3)
  have s: "0 < pageSize ?p" by simp
  from pagination_derived_fields [OF r p s] r p show ?thesis by simp
qed

text \<open>
  Claim C1 as the specification states it asks for \<open>totalPages \<ge> 1\<close> also when there are no
  items. A grid constructed with \<open>totalItems = 0\<close> and the default page size 10 has
  \<open>totalPages = 0\<close>.
\<close>

theorem totalPages_minimum_counterexample:
  "totalItems (the (constructorPagination (props (emptyGrid (Some (paginationProp 0 None)))))) = 0 \<and>
   \<not> 1 \<le> totalPages (the (constructorPagination (props (emptyGrid (Some (paginationProp 0 None)))))) \<and>
   totalPages (the (constructorPagination (props (emptyGrid (Some (paginationProp 0 None)))))) \<noteq>
     specTotalPages 0 10"
  by (simp add: emptyGrid_def paginationProp_def constructorPagination_def
      setInitalStateForPagination_def initialPagination_def Let_def
      getTotalPages_def getFirstItemIndex_def getLastItemIndex_def specTotalPages_def)

section \<open>Pagination: requesting a page\<close>

lemma getPage_resolved:
  assumes p: "pagination (state g) = Some p"
    and pp: "pagination_prop (props g) = Some pp"
    and inv: "totalPages p = getTotalPages (totalItems p) (pageSize p)"
    and T: "1 \<le> getTotalPages (totalItems p) n"
  shows "pageIndexRef (getPage i n g) =
           map_option (\<lambda>_. toString (max 1 (min i (getTotalPages (totalItems p) n)))) (pageIndexRef g)"
    and "getPageData pp = Some h \<Longrightarrow>
           map_option currentPage (pagination (state (getPage i n g))) =
             Some (max 1 (min i (getTotalPages (totalItems p) n)))"
    and "getPageData pp = Some h \<Longrightarrow>
           map_option totalPages (pagination (state (getPage i n g))) =
             Some (getTotalPages (totalItems p) n)"
    and "getPageData pp = Some h \<Longrightarrow>
           invoked (getPage i n g) =
             invoked g @ [GetPageData h (max 1 (min i (getTotalPages (totalItems p) n))) n]"
  using assms
  by (auto simp: getPage_def showLoader_def Let_def max_def min_def split: option.splits)

lemma getPage_unclamped:
  assumes p: "pagination (state g) = Some p"
    and pp: "pagination_prop (props g) = Some pp"
    and inv: "totalPages p = getTotalPages (totalItems p) (pageSize p)"
    and T: "getTotalPages (totalItems p) n = 0"
  shows "pageIndexRef (getPage i n g) = map_option (\<lambda>_. toString (max 1 i)) (pageIndexRef g)"
    and "getPageData pp = Some h \<Longrightarrow>
           map_option currentPage (pagination (state (getPage i n g))) = Some (max 1 i)"
    and "getPageData pp = Some h \<Longrightarrow>
           map_option totalPages (pagination (state (getPage i n g))) = Some 0"
    and "getPageData pp = Some h \<Longrightarrow>
           invoked (getPage i n g) = invoked g @ [GetPageData h (max 1 i) n]"
  using assms
  by (auto simp: getPage_def showLoader_def Let_def max_def split: option.splits)

lemma getTotalPages_zero:
  assumes "0 < n"
  shows "getTotalPages 0 n = 0"
  using assms by (simp add: getTotalPages_def)

lemma emptyGrid_state:
  "pagination (state (emptyGrid (Some (paginationProp t l)))) =
     Some \<lparr>currentPage = 1, pageSize = 10, totalItems = t, firstItem = 1,
           lastItem = min 10 t, totalPages = getTotalPages t 10, pageSizes = None,
           compactFooter = Some False\<rparr>"
  "pagination_prop (props (emptyGrid (Some (paginationProp t l)))) = Some (paginationProp t l)"
  "invoked (emptyGrid pp) = []"
  by (simp_all add: emptyGrid_def paginationProp_def constructorPagination_def
      setInitalStateForPagination_def initialPagination_def Let_def
      getFirstItemIndex_def getLastItemIndex_def)

text \<open>
  Claim C2, as the code has it. For every requested page \<open>i\<close> and every positive page size
  \<open>n\<close>, with \<open>T\<close> the page count for the requested size: when there are items, the page is
  resolved to \<open>max 1 (min i T)\<close>, which lies in \<open>[1, T]\<close>; when there are none, \<open>T\<close> is 0, the test
  \<^verbatim>\<open>pageIndex > totalPages && totalPages\<close> fails, and the page is resolved to \<open>max 1 i\<close>. The
  resolved page is what the input box shows, and with a page loader it is the loader's
  argument and the new \<open>currentPage\<close>, beside the new \<open>totalPages = T\<close>.
\<close>

theorem getPage_clamps:
  assumes "pagination (state g) = Some p"
    and "pagination_prop (props g) = Some pp"
    and "totalPages p = getTotalPages (totalItems p) (pageSize p)"
    and "0 < n"
  shows "(0 < totalItems p \<longrightarrow>
            1 \<le> max 1 (min i (getTotalPages (totalItems p) n)) \<and>
            max 1 (min i (getTotalPages (totalItems p) n)) \<le> getTotalPages (totalItems p) n \<and>
            pageIndexRef (getPage i n g) =
              map_option (\<lambda>_. toString (max 1 (min i (getTotalPages (totalItems p) n)))) (pageIndexRef g) \<and>
            (\<forall>h. getPageData pp = Some h \<longrightarrow>
               map_option currentPage (pagination (state (getPage i n g))) =
                 Some (max 1 (min i (getTotalPages (totalItems p) n))) \<and>
               map_option totalPages (pagination (state (getPage i n g))) =
                 Some (getTotalPages (totalItems p) n) \<and>
               invoked (getPage i n g) =
                 invoked g @ [GetPageData h (max 1 (min i (getTotalPages (totalItems p) n))) n])) \<and>
         (totalItems p = 0 \<longrightarrow>
            pageIndexRef (getPage i n g) = map_option (\<lambda>_. toString (max 1 i)) (pageIndexRef g) \<and>
            (\<forall>h. getPageData pp = Some h \<longrightarrow>
               map_option currentPage (pagination (state (getPage i n g))) = Some (max 1 i) \<and>
               map_option totalPages (pagination (state (getPage i n g))) = Some 0 \<and>
               invoked (getPage i n g) = invoked g @ [GetPageData h (max 1 i) n]))"
proof (intro conjI impI)
  assume pos: "0 < totalItems p"
  then have T: "1 \<le> getTotalPages (totalItems p) n"
    using assms(4) by (simp add: getTotalPages_pos_iff)
  show "1 \<le> max 1 (min i (getTotalPages (totalItems p) n))" by simp
  show "max 1 (min i (getTotalPages (totalItems p) n)) \<le> getTotalPages (totalItems p) n"
    using T by simp
  show "pageIndexRef (getPage i n g) =
      map_option (\<lambda>_. toString (max 1 (min i (getTotalPages (totalItems p) n)))) (pageIndexRef g)"
    using getPage_resolved(1) [OF assms(1,2,3) T] .
  show "\<forall>h. getPageData pp = Some h \<longrightarrow>
       map_option currentPage (pagination (state (getPage i n g))) =
         Some (max 1 (min i (getTotalPages (totalItems p) n))) \<and>
       map_option totalPages (pagination (state (getPage i n g))) =
         Some (getTotalPages (totalItems p) n) \<and>
       invoked (getPage i n g) =
         invoked g @ [GetPageData h (max 1 (min i (getTotalPages (totalItems p) n))) n]"
    using getPage_resolved(2,3,4) [OF assms(1,2,3) T] by blast
next
  assume z: "totalItems p = 0"
  then have T: "getTotalPages (totalItems p) n = 0"
    using assms(4) by (simp add: getTotalPages_zero)
  show "pageIndexRef (getPage i n g) = map_option (\<lambda>_. toString (max 1 i)) (pageIndexRef g)"
    using getPage_unclamped(1) [OF assms(1,2,3) T] .
  show "\<forall>h. getPageData pp = Some h \<longrightarrow>
       map_option currentPage (pagination (state (getPage i n g))) = Some (max 1 i) \<and>
       map_option totalPages (pagination (state (getPage i n g))) = Some 0 \<and>
       invoked (getPage i n g) = invoked g @ [GetPageData h (max 1 i) n]"
    using getPage_unclamped(2,3,4) [OF assms(1,2,3) T] by blast
qed

text \<open>
  C2 on grids as constructed, in pages of 10. With 25 items there are 3 pages: page 5 resolves
  to page 3 and page 0 to page 1. With 5 items page 5 resolves to page 1. With no items page 5
  stays page 5.
\<close>

theorem getPage_clamps_witness:
  "getTotalPages 25 10 = 3 \<and>
   map_option currentPage
     (pagination (state (getPage 5 10 (emptyGrid (Some (paginationProp 25 (Some 7))))))) = Some 3 \<and>
   invoked (getPage 5 10 (emptyGrid (Some (paginationProp 25 (Some 7))))) = [GetPageData 7 3 10] \<and>
   map_option currentPage
     (pagination (state (getPage 0 10 (emptyGrid (Some (paginationProp 25 (Some 7))))))) = Some 1 \<and>
   map_option currentPage
     (pagination (state (getPage 5 10 (emptyGrid (Some (paginationProp 5 (Some 7))))))) = Some 1 \<and>
   map_option currentPage
     (pagination (state (getPage 5 10 (emptyGrid (Some (paginationProp 0 (Some 7))))))) = Some 5"
proof -
  let ?p = "\<lambda>t. \<lparr>currentPage = 1, pageSize = 10, totalItems = t, firstItem = 1,
           lastItem = min 10 t, totalPages = getTotalPages t 10, pageSizes = None,
           compactFooter = Some False\<rparr>"
  have inv: "totalPages (?p t) = getTotalPages (totalItems (?p t)) (pageSize (?p t))" for t
    by simp
  have n: "0 < (10::int)" by simp
  have h: "getPageData (paginationProp t (Some 7)) = Some 7" for t
    by (simp add: paginationProp_def)
  have t25: "getTotalPages 25 10 = 3" and t5: "getTotalPages 5 10 = 1"
    by (simp_all add: getTotalPages_def)
  note c25 = getPage_clamps [OF emptyGrid_state(1) [of 25 "Some 7"]
      emptyGrid_state(2) [of 25 "Some 7"] inv [of 25] n]
  note c5 = getPage_clamps [OF emptyGrid_state(1) [of 5 "Some 7"]
      emptyGrid_state(2) [of 5 "Some 7"] inv [of 5] n]
  note c0 = getPage_clamps [OF emptyGrid_state(1) [of 0 "Some 7"]
      emptyGrid_state(2) [of 0 "Some 7"] inv [of 0] n]
  from c25 [where i = 5] c25 [where i = 0] c5 [where i = 5] c0 [where i = 5] h t25 t5
  show ?thesis by (simp add: emptyGrid_state(3))
qed

text \<open>
  Claim C2 as the specification states it has every requested page resolved into
  \<open>[1, totalPages]\<close>. On the grid constructed with no items, a request for page 5 of size 10
  makes page 5 the current page, of 0 pages.
\<close>

theorem getPage_unclamped_counterexample:
  "currentPage (the (pagination (state (getPage 5 10 (emptyGrid (Some (paginationProp 0 (Some 7)))))))) = 5 \<and>
   totalPages (the (pagination (state (getPage 5 10 (emptyGrid (Some (paginationProp 0 (Some 7)))))))) = 0 \<and>
   \<not> currentPage (the (pagination (state (getPage 5 10 (emptyGrid (Some (paginationProp 0 (Some 7)))))))) \<le>
     totalPages (the (pagination (state (getPage 5 10 (emptyGrid (Some (paginationProp 0 (Some 7))))))))"
  by (simp add: getPage_def showLoader_def emptyGrid_def paginationProp_def
      constructorPagination_def setInitalStateForPagination_def initialPagination_def Let_def
      getTotalPages_def getFirstItemIndex_def getLastItemIndex_def)

lemma toString_examples: "toString 1 = ''1''" "toString 2 = ''2''" "toString 3 = ''3''"
  by code_simp+

lemma getPage_no_getPageData:
  assumes "pagination (state g) = Some p"
    and "pagination_prop (props g) = Some pp"
    and "getPageData pp = None"
  shows "isLoading (state (getPage i n g))"
    and "pagination (state (getPage i n g)) = pagination (state g)"
    and "allRows (state (getPage i n g)) = allRows (state g)"
    and "invoked (getPage i n g) = invoked g"
  using assms by (simp_all add: getPage_def showLoader_def Let_def)

text \<open>
  Claim C4 against the code. A grid with 25 items whose pagination prop has no \<^verbatim>\<open>getPageData\<close>
  is asked for page 2: \<^verbatim>\<open>showLoader\<close> runs before the test for \<^verbatim>\<open>getPageData\<close>, so the loading
  flag is set, and nothing clears it; the input box is overwritten; the pagination state is
  kept and no callback is called.
\<close>

theorem getPage_without_getPageData:
  "\<not> isLoading (state (emptyGrid (Some (paginationProp 25 None)))) \<and>
   isLoading (state (getPage 2 10 (emptyGrid (Some (paginationProp 25 None))))) \<and>
   pageIndexRef (getPage 2 10 (emptyGrid (Some (paginationProp 25 None)))) = Some ''2'' \<and>
   pagination (state (getPage 2 10 (emptyGrid (Some (paginationProp 25 None))))) =
     pagination (state (emptyGrid (Some (paginationProp 25 None)))) \<and>
   invoked (getPage 2 10 (emptyGrid (Some (paginationProp 25 None)))) = []"
  by (simp add: getPage_def showLoader_def emptyGrid_def paginationProp_def
      constructorPagination_def setInitalStateForPagination_def initialPagination_def Let_def
      getTotalPages_def getFirstItemIndex_def getLastItemIndex_def toString_examples)

lemma parseInt_examples: "parseInt ''abc'' = None" "parseInt ''0'' = Some 0"
  by (simp_all add: parseInt_def isWhiteSpace_def isDigitIn_def digitValue_def)

lemma handlePageChange_falsy:
  assumes "pagination (state g) = Some p" and "pageIndexRef g = Some text"
    and "parseInt text = None \<or> parseInt text = Some 0"
  shows "handlePageChange g = Inr g"
  using assms by (auto simp: handlePageChange_def truthy_def Let_def)

text \<open>
  Claim C5 against the code. With the text \<open>abc\<close> in the input box of a grid on page 1,
  \<^verbatim>\<open>parseInt\<close> yields \<^verbatim>\<open>NaN\<close>, the test \<^verbatim>\<open>if (pageIndex)\<close> fails before \<^verbatim>\<open>isNaN\<close> is asked, and the
  handler leaves the grid as it is: the box keeps \<open>abc\<close> where the claim has it show \<open>1\<close>. With
  the text \<open>0\<close>, a number, the same test fails and no page is requested.
\<close>

theorem handlePageChange_not_a_number:
  "handlePageChange ((emptyGrid (Some (paginationProp 25 (Some 7))))\<lparr>pageIndexRef := Some ''abc''\<rparr>) =
     Inr ((emptyGrid (Some (paginationProp 25 (Some 7))))\<lparr>pageIndexRef := Some ''abc''\<rparr>) \<and>
   toString (currentPage (the (pagination (state (emptyGrid (Some (paginationProp 25 (Some 7)))))))) = ''1'' \<and>
   handlePageChange ((emptyGrid (Some (paginationProp 25 (Some 7))))\<lparr>pageIndexRef := Some ''0''\<rparr>) =
     Inr ((emptyGrid (Some (paginationProp 25 (Some 7))))\<lparr>pageIndexRef := Some ''0''\<rparr>)"
  by (simp add: handlePageChange_def parseInt_examples truthy_def emptyGrid_def paginationProp_def
      constructorPagination_def setInitalStateForPagination_def initialPagination_def Let_def
      toString_examples)

section \<open>Selection\<close>

lemma updateRowIDs_simps:
  "updateRowIDs [] = []"
  "updateRowIDs [r] = [r\<lparr>rowID := Some 0\<rparr>]"
  "updateRowIDs [r, r'] = [r\<lparr>rowID := Some 0\<rparr>, r'\<lparr>rowID := Some 1\<rparr>]"
  by (simp_all add: updateRowIDs_def)

lemma gridWithRows_simps:
  "allRows (state (gridWithRows rs)) = updateRowIDs rs"
  "invoked (gridWithRows rs) = []"
  by (simp_all add: gridWithRows_def emptyGrid_def Let_def)

text \<open>
  Claim C9. \<^verbatim>\<open>isAllRowsSelected\<close> holds exactly when there is a row open to selection (one whose
  \<^verbatim>\<open>disableRowSelection\<close> is false or absent) and every such row has \<^verbatim>\<open>isSelected\<close> true;
  \<^verbatim>\<open>getSelectionEnabledRows\<close> yields those rows, and when there is none the result is false.
\<close>

theorem isAllRowsSelected_iff:
  "(isAllRowsSelected rs \<longleftrightarrow>
      (\<exists>row \<in> set rs. disableRowSelection row \<noteq> Some True) \<and>
      (\<forall>row \<in> set rs. disableRowSelection row \<noteq> Some True \<longrightarrow> isSelected row = Some True)) \<and>
   set (getSelectionEnabledRows rs) = {row \<in> set rs. disableRowSelection row \<noteq> Some True} \<and>
   (getSelectionEnabledRows rs = [] \<longrightarrow> \<not> isAllRowsSelected rs)"
  by (auto simp: isAllRowsSelected_def allTrueOnKey_def getSelectionEnabledRows_def list_all_iff
      Let_def filter_empty_conv)

text \<open>
  C9 on three lists: all rows open to selection selected; one of them not selected; none open
  to selection.
\<close>

theorem isAllRowsSelected_iff_witness:
  "isAllRowsSelected [plainRow (Some True) None, plainRow None (Some True), plainRow (Some True) (Some False)] \<and>
   \<not> isAllRowsSelected [plainRow (Some True) None, plainRow None None] \<and>
   getSelectionEnabledRows [plainRow (Some True) (Some True)] = [] \<and>
   \<not> isAllRowsSelected [plainRow (Some True) (Some True)]"
  using isAllRowsSelected_iff [of "[plainRow (Some True) None, plainRow None (Some True), plainRow (Some True) (Some False)]"]
    isAllRowsSelected_iff [of "[plainRow (Some True) None, plainRow None None]"]
    isAllRowsSelected_iff [of "[plainRow (Some True) (Some True)]"]
  by (simp add: plainRow_def getSelectionEnabledRows_def)

section \<open>Expandable rows\<close>

text \<open>
  Claim C10. \<^verbatim>\<open>toggleExpand\<close> on a row of the grid that has no \<^verbatim>\<open>expandableRowData\<close> returns the
  grid as it was: rows, loading flags and the log of callback invocations included.
\<close>

theorem toggleExpand_not_expandable:
  assumes "rowID' < length (allRows (state g))"
    and "expandableRowData (allRows (state g) ! rowID') = None"
  shows "toggleExpand rowID' g = Inr g"
  using assms by (simp add: toggleExpand_def Let_def)

text \<open>The hypotheses of C10 hold for the second row of a grid of two rows.\<close>

theorem toggleExpand_not_expandable_witness:
  "1 < length (allRows (state (gridWithRows [expandableRow (Some 5), plainRow None None]))) \<and>
   expandableRowData (allRows (state (gridWithRows [expandableRow (Some 5), plainRow None None])) ! 1) = None \<and>
   toggleExpand 1 (gridWithRows [expandableRow (Some 5), plainRow None None]) =
     Inr (gridWithRows [expandableRow (Some 5), plainRow None None])"
proof -
  let ?g = "gridWithRows [expandableRow (Some 5), plainRow None None]"
  have a: "1 < length (allRows (state ?g))"
    by (simp add: gridWithRows_simps updateRowIDs_simps)
  have b: "expandableRowData (allRows (state ?g) ! 1) = None"
    by (simp add: gridWithRows_simps updateRowIDs_simps plainRow_def)
  from toggleExpand_not_expandable [OF a b] a b show ?thesis by simp
qed

text \<open>
  Claim C3, as the code has it. For a row with a content loader, \<^verbatim>\<open>toggleExpand\<close> keeps the
  stored content; when the row was collapsed it expands the row, marks it loading and calls
  the loader once, whether or not content was fetched before; when the row was expanded it
  collapses the row and calls nothing. The loader's result, once delivered, replaces the
  stored content and ends the loading.
\<close>

theorem toggleExpand_loader:
  assumes "k < length (allRows (state g))"
    and "expandableRowData (allRows (state g) ! k) = Some e"
    and "onRowExpand e = Some h"
  shows "(\<exists>g' e'. toggleExpand k g = Inr g' \<and>
           length (allRows (state g')) = length (allRows (state g)) \<and>
           expandableRowData (allRows (state g') ! k) = Some e' \<and>
           expandableContent e' = expandableContent e \<and>
           onRowExpand e' = Some h \<and>
           (isExpanded e \<noteq> Some True \<longrightarrow>
              isExpanded e' = Some True \<and> isLoading_row e' = Some True \<and>
              invoked g' = invoked g @ [OnRowExpand h (allRows (state g') ! k)]) \<and>
           (isExpanded e = Some True \<longrightarrow>
              isExpanded e' = Some False \<and> isLoading_row e' = isLoading_row e \<and>
              invoked g' = invoked g)) \<and>
         (\<exists>g'. toggleExpand_then k content g = Inr g' \<and>
            expandableRowData (allRows (state g') ! k) =
              Some (e\<lparr>expandableContent := Some content, isLoading_row := Some False\<rparr>) \<and>
            invoked g' = invoked g)"
  using assms by (simp add: toggleExpand_def toggleExpand_then_def Let_def)

text \<open>The hypotheses of C3 hold for a grid of one collapsed row with loader 5.\<close>

theorem toggleExpand_loader_witness:
  "0 < length (allRows (state (gridWithRows [expandableRow (Some 5)]))) \<and>
   expandableRowData (allRows (state (gridWithRows [expandableRow (Some 5)])) ! 0) =
     expandableRowData (expandableRow (Some 5)) \<and>
   onRowExpand (the (expandableRowData (expandableRow (Some 5)))) = Some 5 \<and>
   isExpanded (the (expandableRowData (expandableRow (Some 5)))) \<noteq> Some True \<and>
   (\<exists>g'. toggleExpand 0 (gridWithRows [expandableRow (Some 5)]) = Inr g' \<and>
      invoked g' = [OnRowExpand 5 (allRows (state g') ! 0)])"
proof -
  let ?g = "gridWithRows [expandableRow (Some 5)]"
  let ?e = "the (expandableRowData (expandableRow (Some 5)))"
  have a: "0 < length (allRows (state ?g))" by (simp add: gridWithRows_simps updateRowIDs_simps)
  have b: "expandableRowData (allRows (state ?g) ! 0) = Some ?e"
    by (simp add: gridWithRows_simps updateRowIDs_simps expandableRow_def)
  have c: "onRowExpand ?e = Some 5" by (simp add: expandableRow_def)
  have d: "isExpanded ?e \<noteq> Some True" by (simp add: expandableRow_def)
  have i: "invoked ?g = []" by (simp add: gridWithRows_simps)
  have f: "expandableRowData (expandableRow (Some 5)) = Some ?e" by (simp add: expandableRow_def)
  from toggleExpand_loader [OF a b c, where content = "''details''"] d i obtain g' where
    "toggleExpand 0 ?g = Inr g'" "invoked g' = [OnRowExpand 5 (allRows (state g') ! 0)]"
    by auto
  with a b c d f show ?thesis by auto
qed

text \<open>
  Claim C3 as the specification states it has the loader called once for all. A row with
  loader 5 is expanded and its content delivered: one call. It is then collapsed and expanded
  again: a second call.
\<close>

theorem loader_invoked_again_counterexample:
  "loaderCalls (andThen (toggleExpand 0 (gridWithRows [expandableRow (Some 5)]))
      (toggleExpand_then 0 ''details'')) = 1 \<and>
   loaderCalls (andThen (andThen (andThen (toggleExpand 0 (gridWithRows [expandableRow (Some 5)]))
      (toggleExpand_then 0 ''details'')) (toggleExpand 0)) (toggleExpand 0)) = 2"
  by (simp add: loaderCalls_def andThen_def toggleExpand_def toggleExpand_then_def gridWithRows_simps updateRowIDs_simps
      gridWithRows_def expandableRow_def emptyGrid_def Let_def)

section \<open>Columns: replacing the column set\<close>

lemma gridWithColumns_simps:
  "allColumns (state (gridWithColumns cs objs)) = updateColumnIDs (setColumnVisibility cs)"
  "allRows (state (gridWithColumns cs objs)) = []"
  "sortObjs (gridWithColumns cs objs) = objs"
  "invoked (gridWithColumns cs objs) = []"
  "updateDataGridColumns (props (gridWithColumns cs objs)) = None"
  by (simp_all add: gridWithColumns_def emptyGrid_def Let_def)

lemma columns_simps:
  "updateColumnIDs (setColumnVisibility [column n0 s0, column n1 s1]) =
     [\<lparr>columnName = n0, columnID = Some 0, sort_col = s0, isVisible = Some True, width = None\<rparr>,
      \<lparr>columnName = n1, columnID = Some 1, sort_col = s1, isVisible = Some True, width = None\<rparr>]"
  "updateColumnIDs (setColumnVisibility [column n0 s0, column n1 s1, column n2 s2]) =
     [\<lparr>columnName = n0, columnID = Some 0, sort_col = s0, isVisible = Some True, width = None\<rparr>,
      \<lparr>columnName = n1, columnID = Some 1, sort_col = s1, isVisible = Some True, width = None\<rparr>,
      \<lparr>columnName = n2, columnID = Some 2, sort_col = s2, isVisible = Some True, width = None\<rparr>]"
  by (simp_all add: updateColumnIDs_def setColumnVisibility_def column_def)

lemma updateColumnIDs_nth:
  "i < length cs \<Longrightarrow> updateColumnIDs cs ! i = (cs ! i)\<lparr>columnID := Some i\<rparr>"
  by (simp add: updateColumnIDs_def nth_enumerate_eq)

lemma updateColumns_allColumns:
  "allColumns (state (updateColumns cols g)) =
     updateColumnIDs (setSortingState (allColumns (state g)) (setColumnVisibility cols))"
  by (simp add: updateColumns_def Let_def split: option.splits)

lemma updateColumns_sortObjs: "sortObjs (updateColumns cols g) = sortObjs g"
  by (simp add: updateColumns_def Let_def split: option.splits)

lemma length_columns:
  "length (updateColumnIDs cs) = length cs" "length (setSortingState a cs) = length cs"
  "length (setColumnVisibility cs) = length cs"
  by (simp_all add: updateColumnIDs_def setSortingState_def setColumnVisibility_def)

lemma updateColumns_sort_col:
  assumes "i < length cols"
  shows "sort_col (allColumns (state (updateColumns cols g)) ! i) =
           (case sort_col (cols ! i) of
              None \<Rightarrow> None
            | Some _ \<Rightarrow>
                (case find (\<lambda>c. columnName c = columnName (cols ! i)) (allColumns (state g)) of
                   None \<Rightarrow> None
                 | Some col \<Rightarrow> sort_col col))"
  using assms
  by (simp add: updateColumns_allColumns updateColumnIDs_nth length_columns
      setSortingState_def setColumnVisibility_def split: option.splits)

lemma gridWithColumns_columns:
  "allColumns (state (gridWithColumns [column n0 s0, column n1 s1] objs)) =
     [\<lparr>columnName = n0, columnID = Some 0, sort_col = s0, isVisible = Some True, width = None\<rparr>,
      \<lparr>columnName = n1, columnID = Some 1, sort_col = s1, isVisible = Some True, width = None\<rparr>]"
  "allColumns (state (gridWithColumns [column n0 s0, column n1 s1, column n2 s2] objs)) =
     [\<lparr>columnName = n0, columnID = Some 0, sort_col = s0, isVisible = Some True, width = None\<rparr>,
      \<lparr>columnName = n1, columnID = Some 1, sort_col = s1, isVisible = Some True, width = None\<rparr>,
      \<lparr>columnName = n2, columnID = Some 2, sort_col = s2, isVisible = Some True, width = None\<rparr>]"
  by (simp_all add: gridWithColumns_simps columns_simps)

text \<open>
  Claim C6. After \<^verbatim>\<open>updateColumns\<close>, an incoming column that declares no sort object has none,
  whatever the columns of the state hold. An incoming column that declares one holds instead
  the sort object of the first column of the state with its name, and so shows that object's
  order and sort flag, not those it declared; when no column of the state has its name it has
  no sort object.
\<close>

theorem updateColumns_sort:
  assumes "i < length cols"
  shows "(sort_col (cols ! i) = None \<longrightarrow>
            sort_col (allColumns (state (updateColumns cols g)) ! i) = None) \<and>
         (sort_col (cols ! i) \<noteq> None \<longrightarrow>
            (\<forall>col. find (\<lambda>c. columnName c = columnName (cols ! i)) (allColumns (state g)) = Some col \<longrightarrow>
               sort_col (allColumns (state (updateColumns cols g)) ! i) = sort_col col \<and>
               currentOrder (updateColumns cols g) (allColumns (state (updateColumns cols g)) ! i) =
                 currentOrder g col \<and>
               isSortedColumn (updateColumns cols g) (allColumns (state (updateColumns cols g)) ! i) =
                 isSortedColumn g col) \<and>
            ((\<forall>c \<in> set (allColumns (state g)). columnName c \<noteq> columnName (cols ! i)) \<longrightarrow>
               sort_col (allColumns (state (updateColumns cols g)) ! i) = None))"
proof -
  have none: "find (\<lambda>c. columnName c = columnName (cols ! i)) (allColumns (state g)) = None"
    if "\<forall>c \<in> set (allColumns (state g)). columnName c \<noteq> columnName (cols ! i)"
    using that by (simp add: find_None_iff)
  show ?thesis
    using updateColumns_sort_col [OF assms, of g] none
    by (auto simp: currentOrder_def isSortedColumn_def updateColumns_sortObjs split: option.splits)
qed

text \<open>
  C6 on a grid whose column \<open>A\<close> is sorted descending (sort object 0) and whose column \<open>B\<close>
  has sort object 1. The new columns are \<open>A\<close> declaring a fresh sort object, \<open>B\<close> declaring
  none and \<open>C\<close> declaring one: \<open>A\<close> gets object 0 and its descending order, \<open>B\<close> and \<open>C\<close> get
  none.
\<close>

theorem updateColumns_sort_witness:
  "sort_col (allColumns (state (updateColumns
      [column ''A'' (Some 2), column ''B'' None, column ''C'' (Some 3)]
      (gridWithColumns [column ''A'' (Some 0), column ''B'' (Some 1)]
         ((\<lambda>_. sortObject NONE None)(0 := sortObject DESC (Some True)))))) ! 0) = Some 0 \<and>
   currentOrder (updateColumns
      [column ''A'' (Some 2), column ''B'' None, column ''C'' (Some 3)]
      (gridWithColumns [column ''A'' (Some 0), column ''B'' (Some 1)]
         ((\<lambda>_. sortObject NONE None)(0 := sortObject DESC (Some True)))))
     (allColumns (state (updateColumns
      [column ''A'' (Some 2), column ''B'' None, column ''C'' (Some 3)]
      (gridWithColumns [column ''A'' (Some 0), column ''B'' (Some 1)]
         ((\<lambda>_. sortObject NONE None)(0 := sortObject DESC (Some True)))))) ! 0) = Some DESC \<and>
   sort_col (allColumns (state (updateColumns
      [column ''A'' (Some 2), column ''B'' None, column ''C'' (Some 3)]
      (gridWithColumns [column ''A'' (Some 0), column ''B'' (Some 1)]
         ((\<lambda>_. sortObject NONE None)(0 := sortObject DESC (Some True)))))) ! 1) = None \<and>
   sort_col (allColumns (state (updateColumns
      [column ''A'' (Some 2), column ''B'' None, column ''C'' (Some 3)]
      (gridWithColumns [column ''A'' (Some 0), column ''B'' (Some 1)]
         ((\<lambda>_. sortObject NONE None)(0 := sortObject DESC (Some True)))))) ! 2) = None"
proof -
  let ?cols = "[column ''A'' (Some 2), column ''B'' None, column ''C'' (Some 3)]"
  let ?g = "gridWithColumns [column ''A'' (Some 0), column ''B'' (Some 1)]
         ((\<lambda>_. sortObject NONE None)(0 := sortObject DESC (Some True)))"
  let ?new = "allColumns (state (updateColumns ?cols ?g))"
  have old: "allColumns (state ?g) =
     [\<lparr>columnName = ''A'', columnID = Some 0, sort_col = Some 0, isVisible = Some True, width = None\<rparr>,
      \<lparr>columnName = ''B'', columnID = Some 1, sort_col = Some 1, isVisible = Some True, width = None\<rparr>]"
    by (simp only: gridWithColumns_columns)
  have l0: "0 < length ?cols" and l1: "1 < length ?cols" and l2: "2 < length ?cols"
    by simp_all
  have s0: "sort_col (?cols ! 0) \<noteq> None" and s1: "sort_col (?cols ! 1) = None"
    and s2: "sort_col (?cols ! 2) \<noteq> None"
    by (simp_all add: column_def)
  have f0: "find (\<lambda>c. columnName c = columnName (?cols ! 0)) (allColumns (state ?g)) =
      Some \<lparr>columnName = ''A'', columnID = Some 0, sort_col = Some 0, isVisible = Some True, width = None\<rparr>"
    by (simp only: old) (simp add: column_def)
  have f2: "\<forall>c \<in> set (allColumns (state ?g)). columnName c \<noteq> columnName (?cols ! 2)"
    by (simp only: old) (simp add: column_def)
  have o: "currentOrder ?g \<lparr>columnName = ''A'', columnID = Some 0, sort_col = Some 0,
      isVisible = Some True, width = None\<rparr> = Some DESC"
    by (simp add: currentOrder_def gridWithColumns_simps sortObject_def)
  have a0: "sort_col (?new ! 0) = Some 0" and c0: "currentOrder (updateColumns ?cols ?g) (?new ! 0) = Some DESC"
    using updateColumns_sort [OF l0, of ?g] s0 f0 o by simp_all
  have a1: "sort_col (?new ! 1) = None"
    using updateColumns_sort [OF l1, of ?g] s1 by blast
  have a2: "sort_col (?new ! 2) = None"
    using updateColumns_sort [OF l2, of ?g] s2 f2 by blast
  from a0 c0 a1 a2 show ?thesis by blast
qed

section \<open>Sorting\<close>

lemma clear_fold:
  "fold (\<lambda>col objs. case sort_col col of
                       None \<Rightarrow> objs
                     | Some a \<Rightarrow> objs(a := (objs a)\<lparr>isSorted := Some False\<rparr>)) cs objs b =
     (if b \<in> set (sortRefs cs) then (objs b)\<lparr>isSorted := Some False\<rparr> else objs b)"
proof (induction cs arbitrary: objs)
  case Nil
  then show ?case by (simp add: sortRefs_def)
next
  case (Cons c cs)
  then show ?case by (cases "sort_col c") (auto simp: sortRefs_def)
qed


lemma sortActivation_result:
  assumes "i < length (allColumns (state g))"
    and "sort_col (allColumns (state g) ! i) = Some a"
    and "columnID (allColumns (state g) ! i) = Some i"
  shows "\<exists>g'. sortActivation i data g = Inr g' \<and>
           allColumns (state g') = allColumns (state g) \<and>
           allRows (state g') = updateRowIDs data \<and>
           \<not> isLoading (state g') \<and>
           sortObjs g' a = (sortObjs g a)\<lparr>defaultSortOrder := nextSortOrder (defaultSortOrder (sortObjs g a)),
                                          isSorted := Some True\<rparr> \<and>
           (\<forall>b. b \<noteq> a \<longrightarrow> sortObjs g' b =
              (if b \<in> set (sortRefs (allColumns (state g))) then (sortObjs g b)\<lparr>isSorted := Some False\<rparr>
               else sortObjs g b)) \<and>
           invoked g' = invoked g @
             [SortFunction (sortFunction (sortObjs g a)) (allRows (state g))
                (nextSortOrder (defaultSortOrder (sortObjs g a))) (columnName (allColumns (state g) ! i))]"
  using assms
  by (simp add: sortActivation_def handleSort_def handleSort_then_def showLoader_def hideLoader_def
      Let_def clear_fold)





text \<open>
  The flag is a field of the sort object, which \<^verbatim>\<open>handleSort\<close> writes in place: two columns
  that hold one and the same object show it together.
\<close>

lemma sortActivation_shared_sort_object:
  "sortedColumns (sortActivation 0 []
     (gridWithColumns [column ''A'' (Some 0), column ''B'' (Some 0)] (\<lambda>_. sortObject NONE None))) =
   [''A'', ''B'']"
  by (simp add: sortedColumns_def sortActivation_def handleSort_def handleSort_then_def
      showLoader_def hideLoader_def gridWithColumns_simps columns_simps sortObject_def
      isSortedColumn_def updateRowIDs_simps Let_def)

text \<open>
  Claim C8. A sort activation of a column that completes leaves the column with the order
  \<open>DESC\<close> when its order was \<open>ASC\<close> and with \<open>ASC\<close> when it was \<open>NONE\<close> or \<open>DESC\<close>, and that is the order
  the sort function was called with. Three activations in a row succeed, and from \<open>NONE\<close> they
  give \<open>ASC\<close>, \<open>DESC\<close>, \<open>ASC\<close>.
\<close>

theorem sortActivation_order:
  assumes "i < length (allColumns (state g))"
    and "sort_col (allColumns (state g) ! i) = Some a"
    and "columnID (allColumns (state g) ! i) = Some i"
  shows "\<exists>g1 g2 g3.
           sortActivation i d1 g = Inr g1 \<and>
           sortActivation i d2 g1 = Inr g2 \<and>
           sortActivation i d3 g2 = Inr g3 \<and>
           currentOrder g1 (allColumns (state g1) ! i) =
             Some (if currentOrder g (allColumns (state g) ! i) = Some ASC then DESC else ASC) \<and>
           invoked g1 = invoked g @
             [SortFunction (sortFunction (sortObjs g a)) (allRows (state g))
                (if currentOrder g (allColumns (state g) ! i) = Some ASC then DESC else ASC)
                (columnName (allColumns (state g) ! i))] \<and>
           (currentOrder g (allColumns (state g) ! i) = Some NONE \<longrightarrow>
              currentOrder g1 (allColumns (state g1) ! i) = Some ASC \<and>
              currentOrder g2 (allColumns (state g2) ! i) = Some DESC \<and>
              currentOrder g3 (allColumns (state g3) ! i) = Some ASC)"
proof -
  from sortActivation_result [OF assms, of d1] obtain g1 where
    r1: "sortActivation i d1 g = Inr g1"
    and c1: "allColumns (state g1) = allColumns (state g)"
    and o1: "defaultSortOrder (sortObjs g1 a) = nextSortOrder (defaultSortOrder (sortObjs g a))"
    and i1: "invoked g1 = invoked g @
             [SortFunction (sortFunction (sortObjs g a)) (allRows (state g))
                (nextSortOrder (defaultSortOrder (sortObjs g a))) (columnName (allColumns (state g) ! i))]"
    by auto
  have w1: "i < length (allColumns (state g1))" "sort_col (allColumns (state g1) ! i) = Some a"
    "columnID (allColumns (state g1) ! i) = Some i"
    using assms c1 by simp_all
  from sortActivation_result [OF w1, of d2] obtain g2 where
    r2: "sortActivation i d2 g1 = Inr g2"
    and c2: "allColumns (state g2) = allColumns (state g1)"
    and o2: "defaultSortOrder (sortObjs g2 a) = nextSortOrder (defaultSortOrder (sortObjs g1 a))"
    by auto
  have w2: "i < length (allColumns (state g2))" "sort_col (allColumns (state g2) ! i) = Some a"
    "columnID (allColumns (state g2) ! i) = Some i"
    using w1 c2 by simp_all
  from sortActivation_result [OF w2, of d3] obtain g3 where
    r3: "sortActivation i d3 g2 = Inr g3"
    and c3: "allColumns (state g3) = allColumns (state g2)"
    and o3: "defaultSortOrder (sortObjs g3 a) = nextSortOrder (defaultSortOrder (sortObjs g2 a))"
    by auto
  have w3: "sort_col (allColumns (state g3) ! i) = Some a"
    using w2 c3 by simp
  show ?thesis
    using r1 r2 r3 o1 o2 o3 i1 assms(2) w1(2) w2(2) w3
    by (cases "defaultSortOrder (sortObjs g a)") (auto simp: currentOrder_def nextSortOrder_def)
qed


text \<open>The hypotheses of C8 hold for column \<open>A\<close> of a grid whose sort objects start at \<open>NONE\<close>.\<close>

theorem sortActivation_order_witness:
  "currentOrder (gridWithColumns [column ''A'' (Some 0), column ''B'' (Some 1), column ''C'' None]
         (\<lambda>_. sortObject NONE None))
     (allColumns (state (gridWithColumns [column ''A'' (Some 0), column ''B'' (Some 1), column ''C'' None]
         (\<lambda>_. sortObject NONE None))) ! 0) = Some NONE \<and>
   (\<exists>g1 g2 g3.
      sortActivation 0 [] (gridWithColumns [column ''A'' (Some 0), column ''B'' (Some 1), column ''C'' None]
         (\<lambda>_. sortObject NONE None)) = Inr g1 \<and>
      sortActivation 0 [] g1 = Inr g2 \<and>
      sortActivation 0 [] g2 = Inr g3 \<and>
      currentOrder g1 (allColumns (state g1) ! 0) = Some ASC \<and>
      currentOrder g2 (allColumns (state g2) ! 0) = Some DESC \<and>
      currentOrder g3 (allColumns (state g3) ! 0) = Some ASC)"
proof -
  let ?g = "gridWithColumns [column ''A'' (Some 0), column ''B'' (Some 1), column ''C'' None]
         (\<lambda>_. sortObject NONE None)"
  have a: "0 < length (allColumns (state ?g))" by (simp only: gridWithColumns_columns) simp
  have b: "sort_col (allColumns (state ?g) ! 0) = Some 0" by (simp only: gridWithColumns_columns) simp
  have c: "columnID (allColumns (state ?g) ! 0) = Some 0" by (simp only: gridWithColumns_columns) simp
  have d: "currentOrder ?g (allColumns (state ?g) ! 0) = Some NONE"
    by (simp only: gridWithColumns_columns) (simp add: currentOrder_def gridWithColumns_simps sortObject_def)
  from sortActivation_order [OF a b c, of "[]" "[]" "[]"] d show ?thesis
    by blast
qed

end
